theory Spec2Isabelle
  imports Main
begin

section \<open>Values, errors and the in-process store\<close>

text \<open>
  The numbers the ticket service handles are JavaScript numbers holding integers far
  below 2^53, where \<open>+\<close> and \<open>%\<close> are exact: they are modelled as \<open>int\<close>. A value that
  may be \<open>null\<close> is an \<open>int option\<close>, \<open>None\<close> being \<open>null\<close>. Every \<open>throw\<close> of the
  source is a constructor of \<open>error\<close>.
\<close>

datatype error =
    QueueIdRequired
  | QueueDoesNotExist string
  | QueueAlreadyExists string
  | TypeError
  | FailedToGetTicket string
  | FailedToResetQueue string
  | FailedToGetStatus string
  | TicketNumberOutOfRange
  | InvalidTicketNumber int
  | CurrentNumberOutOfRange
  | RedisIncrementFailed

text \<open>\<open>InMemoryStorageAdapter.storage\<close>: a \<open>Map\<close> from keys to the stored numbers.\<close>

type_synonym storage = "string \<rightharpoonup> int"

text \<open>\<open>InMemoryStorageAdapter.get\<close>: \<open>storage.has(key) ? storage.get(key) : null\<close>.\<close>

definition adapter_get :: "string \<Rightarrow> storage \<Rightarrow> int option \<times> storage" where
  "adapter_get key st = (st key, st)"

text \<open>\<open>InMemoryStorageAdapter.set\<close>: \<open>storage.set(key, value); return true\<close>.\<close>

definition adapter_set :: "string \<Rightarrow> int \<Rightarrow> storage \<Rightarrow> bool \<times> storage" where
  "adapter_set key v st = (True, st(key \<mapsto> v))"

section \<open>JavaScript primitives used by the service\<close>

text \<open>\<open>ToNumber\<close> of a number or \<open>null\<close>: \<open>null + 1\<close> is \<open>1\<close>.\<close>

definition toNumber :: "int option \<Rightarrow> int" where
  "toNumber v = (case v of None \<Rightarrow> 0 | Some n \<Rightarrow> n)"

text \<open>The remainder operator \<open>%\<close>: the result takes the sign of the dividend.\<close>

definition js_rem :: "int \<Rightarrow> int \<Rightarrow> int" where
  "js_rem a b = (if a < 0 then - ((- a) mod \<bar>b\<bar>) else a mod \<bar>b\<bar>)"

definition digit_char :: "nat \<Rightarrow> char" where
  "digit_char d = ''0123456789'' ! d"

text \<open>The decimal digits of a natural number, most significant first.\<close>

fun digits :: "nat \<Rightarrow> string" where
  "digits n = (if n < 10 then [digit_char n] else digits (n div 10) @ [digit_char (n mod 10)])"

declare digits.simps [simp del]

text \<open>\<open>Number.prototype.toString\<close> on an integer.\<close>

definition toString :: "int \<Rightarrow> string" where
  "toString i = (if i < 0 then CHR ''-'' # digits (nat (- i)) else digits (nat i))"

text \<open>\<open>String.prototype.padStart\<close> with a one-character filler.\<close>

definition padStart :: "nat \<Rightarrow> char \<Rightarrow> string \<Rightarrow> string" where
  "padStart w c s = replicate (w - length s) c @ s"

section \<open>QueueRepository\<close>

definition MAX_TICKET_NUMBER :: int where
  "MAX_TICKET_NUMBER = 9999"

definition MIN_TICKET_NUMBER :: int where
  "MIN_TICKET_NUMBER = 0"

text \<open>\<open>QueueRepository._getQueueKey\<close>: the template \<open>queue:${queueId}:ticket\<close>.\<close>

definition getQueueKey :: "string \<Rightarrow> string" where
  "getQueueKey qid = ''queue:'' @ qid @ '':ticket''"

text \<open>
  \<open>QueueRepository.getCurrentTicketNumber\<close>. \<open>!queueId\<close> holds of the empty string;
  \<open>parseInt(value, 10)\<close> of a stored integer is that integer; an absent key gives \<open>null\<close>.
\<close>

definition getCurrentTicketNumber :: "string \<Rightarrow> storage \<Rightarrow> (error + int option) \<times> storage" where
  "getCurrentTicketNumber qid st =
     (if qid = [] then (Inl QueueIdRequired, st)
      else case adapter_get (getQueueKey qid) st of (v, st1) \<Rightarrow> (Inr v, st1))"

text \<open>\<open>QueueRepository.incrementTicketNumber\<close>.\<close>

definition incrementTicketNumber :: "string \<Rightarrow> storage \<Rightarrow> (error + int) \<times> storage" where
  "incrementTicketNumber qid st =
     (if qid = [] then (Inl QueueIdRequired, st)
      else case getCurrentTicketNumber qid st of
          (Inl e, st1) \<Rightarrow> (Inl e, st1)
        | (Inr None, st1) \<Rightarrow> (Inl (QueueDoesNotExist qid), st1)
        | (Inr (Some currentNumber), st1) \<Rightarrow>
            (let nextNumber = (if currentNumber + 1 > MAX_TICKET_NUMBER then 0 else currentNumber + 1)
             in case adapter_set (getQueueKey qid) nextNumber st1 of
                  (ok, st2) \<Rightarrow> (Inr nextNumber, st2)))"

text \<open>\<open>QueueRepository.resetTicketNumber\<close>.\<close>

definition resetTicketNumber :: "string \<Rightarrow> storage \<Rightarrow> (error + bool) \<times> storage" where
  "resetTicketNumber qid st =
     (if qid = [] then (Inl QueueIdRequired, st)
      else case adapter_set (getQueueKey qid) 0 st of (ok, st1) \<Rightarrow> (Inr True, st1))"

text \<open>\<open>QueueRepository.createQueue\<close>.\<close>

definition createQueue :: "string \<Rightarrow> storage \<Rightarrow> (error + bool) \<times> storage" where
  "createQueue qid st =
     (if qid = [] then (Inl QueueIdRequired, st)
      else case getCurrentTicketNumber qid st of
          (Inl e, st1) \<Rightarrow> (Inl e, st1)
        | (Inr (Some n), st1) \<Rightarrow> (Inl (QueueAlreadyExists qid), st1)
        | (Inr None, st1) \<Rightarrow>
            (case adapter_set (getQueueKey qid) 0 st1 of (ok, st2) \<Rightarrow> (Inr True, st2)))"

text \<open>
  \<open>QueueRepository\<close> defines no \<open>updateTicketNumber\<close>, and nothing else in the
  repository adds one. The expression \<open>this.queueRepository.updateTicketNumber(...)\<close> in
  \<open>QueueService\<close> therefore applies \<open>undefined\<close>: it raises a \<open>TypeError\<close> before
  anything is written.
\<close>

definition updateTicketNumber :: "string \<Rightarrow> int \<Rightarrow> storage \<Rightarrow> (error + bool) \<times> storage" where
  "updateTicketNumber qid n st = (Inl TypeError, st)"

section \<open>QueueService\<close>

text \<open>
  \<open>QueueService.formatTicketNumber\<close>: \<open>number.toString().padStart(4, '0')\<close>. On \<open>null\<close>
  the method call \<open>null.toString()\<close> raises a \<open>TypeError\<close>.
\<close>

definition formatTicketNumber :: "int option \<Rightarrow> error + string" where
  "formatTicketNumber v =
     (case v of None \<Rightarrow> Inl TypeError
      | Some n \<Rightarrow> Inr (padStart 4 (CHR ''0'') (toString n)))"

text \<open>
  \<open>QueueService.getTicket\<close>. Every error raised inside the \<open>try\<close> is replaced by
  \<open>Failed to get ticket for queue ...\<close>.
\<close>

definition getTicket :: "string \<Rightarrow> storage \<Rightarrow> (error + string) \<times> storage" where
  "getTicket qid st =
     (case getCurrentTicketNumber qid st of
        (Inl e, st1) \<Rightarrow> (Inl (FailedToGetTicket qid), st1)
      | (Inr currentNumber, st1) \<Rightarrow>
          (let nextNumber = js_rem (toNumber currentNumber + 1) (MAX_TICKET_NUMBER + 1)
           in case updateTicketNumber qid nextNumber st1 of
               (Inl e, st2) \<Rightarrow> (Inl (FailedToGetTicket qid), st2)
             | (Inr ok, st2) \<Rightarrow>
                 (case formatTicketNumber (Some nextNumber) of
                    Inl e \<Rightarrow> (Inl (FailedToGetTicket qid), st2)
                  | Inr t \<Rightarrow> (Inr t, st2))))"

text \<open>\<open>QueueService.resetQueue\<close>.\<close>

definition resetQueue :: "string \<Rightarrow> storage \<Rightarrow> (error + bool) \<times> storage" where
  "resetQueue qid st =
     (case updateTicketNumber qid 0 st of
        (Inl e, st1) \<Rightarrow> (Inl (FailedToResetQueue qid), st1)
      | (Inr ok, st1) \<Rightarrow> (Inr True, st1))"

text \<open>The object \<open>QueueService.getQueueStatus\<close> returns.\<close>

record queue_status =
  statusQueueId :: string
  currentTicket :: string
  ticketCount :: "int option"

text \<open>\<open>QueueService.getQueueStatus\<close>.\<close>

definition getQueueStatus :: "string \<Rightarrow> storage \<Rightarrow> (error + queue_status) \<times> storage" where
  "getQueueStatus qid st =
     (case getCurrentTicketNumber qid st of
        (Inl e, st1) \<Rightarrow> (Inl (FailedToGetStatus qid), st1)
      | (Inr currentNumber, st1) \<Rightarrow>
          (case formatTicketNumber currentNumber of
             Inl e \<Rightarrow> (Inl (FailedToGetStatus qid), st1)
           | Inr t \<Rightarrow>
               (Inr \<lparr>statusQueueId = qid, currentTicket = t, ticketCount = currentNumber\<rparr>, st1)))"

section \<open>Interleaved calls of incrementTicketNumber\<close>

text \<open>
  An \<open>async\<close> function runs without interruption from one \<open>await\<close> to the next.
  \<open>incrementTicketNumber\<close> awaits twice: \<open>await this.getCurrentTicketNumber(queueId)\<close>
  for the read and \<open>await this.storageAdapter.set(key, nextNumber)\<close> for the write. A
  call in flight is therefore in one of three places: not yet started, holding the
  number it has read, or finished with its result. The in-process adapter reads and
  writes its \<open>Map\<close> synchronously inside \<open>get\<close> and \<open>set\<close>, so a step is one access to
  the store.
\<close>

datatype call =
    Waiting string
  | HasRead string "int option"
  | Returned "error + int"

fun step_call :: "call \<Rightarrow> storage \<Rightarrow> call \<times> storage" where
  "step_call (Waiting qid) st =
     (if qid = [] then (Returned (Inl QueueIdRequired), st)
      else case getCurrentTicketNumber qid st of
          (Inl e, st1) \<Rightarrow> (Returned (Inl e), st1)
        | (Inr currentNumber, st1) \<Rightarrow> (HasRead qid currentNumber, st1))"
| "step_call (HasRead qid None) st = (Returned (Inl (QueueDoesNotExist qid)), st)"
| "step_call (HasRead qid (Some currentNumber)) st =
     (let nextNumber = (if currentNumber + 1 > MAX_TICKET_NUMBER then 0 else currentNumber + 1)
      in case adapter_set (getQueueKey qid) nextNumber st of
           (ok, st2) \<Rightarrow> (Returned (Inr nextNumber), st2))"
| "step_call (Returned r) st = (Returned r, st)"

text \<open>A schedule names, step by step, the call that runs next.\<close>

fun run :: "nat list \<Rightarrow> call list \<Rightarrow> storage \<Rightarrow> call list \<times> storage" where
  "run [] cs st = (cs, st)"
| "run (i # sched) cs st =
     (if i < length cs
      then (case step_call (cs ! i) st of (c, st1) \<Rightarrow> run sched (cs[i := c]) st1)
      else run sched cs st)"

section \<open>The Ticket model\<close>

record ticket =
  queueId :: string
  number :: int
  formattedNumber :: string
  createdAt :: nat

text \<open>\<open>Ticket.formatNumber\<close>: numbers outside the range are rejected.\<close>

definition formatNumber :: "int \<Rightarrow> error + string" where
  "formatNumber n =
     (if n < MIN_TICKET_NUMBER \<or> n > MAX_TICKET_NUMBER then Inl (InvalidTicketNumber n)
      else Inr (padStart 4 (CHR ''0'') (toString n)))"

text \<open>\<open>Ticket.getNextNumber\<close>.\<close>

definition getNextNumber :: "int \<Rightarrow> error + int" where
  "getNextNumber currentNumber =
     (if currentNumber < MIN_TICKET_NUMBER \<or> currentNumber > MAX_TICKET_NUMBER
      then Inl CurrentNumberOutOfRange
      else Inr (if currentNumber = MAX_TICKET_NUMBER then MIN_TICKET_NUMBER
                else currentNumber + 1))"

text \<open>
  The constructor of \<open>Ticket\<close>; \<open>now\<close> is the value of \<open>new Date()\<close>, the default of
  \<open>createdAt\<close>.
\<close>

definition new_Ticket :: "string \<Rightarrow> int \<Rightarrow> nat \<Rightarrow> error + ticket" where
  "new_Ticket qid n now =
     (if qid = [] then Inl QueueIdRequired
      else if n < MIN_TICKET_NUMBER \<or> n > MAX_TICKET_NUMBER then Inl TicketNumberOutOfRange
      else case formatNumber n of
             Inl e \<Rightarrow> Inl e
           | Inr f \<Rightarrow> Inr \<lparr>queueId = qid, number = n, formattedNumber = f, createdAt = now\<rparr>)"

text \<open>\<open>Ticket.createNext\<close>.\<close>

definition createNext :: "string \<Rightarrow> int \<Rightarrow> nat \<Rightarrow> error + ticket" where
  "createNext qid currentNumber now =
     (case getNextNumber currentNumber of
        Inl e \<Rightarrow> Inl e
      | Inr nextNumber \<Rightarrow> new_Ticket qid nextNumber now)"

section \<open>RedisStorageAdapter\<close>

text \<open>
  The adapter's client: whether the server can be reached, and the integers it holds.
\<close>

record redis =
  reachable :: bool
  rdata :: "string \<rightharpoonup> int"

text \<open>
  The client's \<open>incr\<close>, as the docstring of \<open>increment\<close> describes it: a missing key
  counts as 0, the stored integer is raised by one, stored and returned.
\<close>

definition client_incr :: "string \<Rightarrow> (string \<rightharpoonup> int) \<Rightarrow> int \<times> (string \<rightharpoonup> int)" where
  "client_incr key db =
     (let newValue = (case db key of None \<Rightarrow> 0 | Some v \<Rightarrow> v) + 1
      in (newValue, db(key \<mapsto> newValue)))"

text \<open>
  \<open>RedisStorageAdapter.increment\<close>: connect, \<open>incr\<close>, return the new value. A failure
  of either is rethrown as \<open>Failed to increment value in Redis\<close>.
\<close>

definition increment :: "string \<Rightarrow> redis \<Rightarrow> (error + int) \<times> redis" where
  "increment key r =
     (if reachable r
      then (case client_incr key (rdata r) of
              (newValue, db) \<Rightarrow> (Inr newValue, r\<lparr>rdata := db\<rparr>))
      else (Inl RedisIncrementFailed, r))"

section \<open>The specification's formatting rule and store invariant\<close>

text \<open>
  The spec's \<open>formatNumber\<close>, in its own words: \<open>n mod 10000\<close>, left-padded with zeros to
  width 4, that is the four decimal digits of \<open>n mod 10000\<close>.
\<close>

definition spec_formatNumber :: "int \<Rightarrow> string" where
  "spec_formatNumber n =
     (let m = nat (n mod 10000)
      in [digit_char (m div 1000), digit_char (m div 100 mod 10),
          digit_char (m div 10 mod 10), digit_char (m mod 10)])"

text \<open>The spec's invariant: every stored counter lies between 0 and 9999.\<close>

definition counters_in_range :: "storage \<Rightarrow> bool" where
  "counters_in_range st = (\<forall>k v. st k = Some v \<longrightarrow> 0 \<le> v \<and> v \<le> 9999)"

section \<open>Formatting and single-step lemmas\<close>

lemma replicate_3: "replicate 3 x = [x, x, x]"
  by (simp add: numeral_3_eq_3)

lemma replicate_2: "replicate 2 x = [x, x]"
  by (simp add: numeral_2_eq_2)

lemma digit_char_0: "digit_char 0 = CHR ''0''"
  by (simp add: digit_char_def)

lemma digits_lt_10: "m < 10 \<Longrightarrow> digits m = [digit_char m]"
  by (simp add: digits.simps)

lemma digits_lt_100:
  "10 \<le> m \<Longrightarrow> m < 100 \<Longrightarrow> digits m = [digit_char (m div 10), digit_char (m mod 10)]"
  by (subst digits.simps) (simp add: digits_lt_10)

lemma digits_lt_1000:
  "100 \<le> m \<Longrightarrow> m < 1000 \<Longrightarrow>
   digits m = [digit_char (m div 100), digit_char (m div 10 mod 10), digit_char (m mod 10)]"
  by (subst digits.simps) (simp add: digits_lt_100 div_mult2_eq[symmetric])

lemma digits_lt_10000:
  "1000 \<le> m \<Longrightarrow> m < 10000 \<Longrightarrow>
   digits m = [digit_char (m div 1000), digit_char (m div 100 mod 10),
               digit_char (m div 10 mod 10), digit_char (m mod 10)]"
  by (subst digits.simps) (simp add: digits_lt_1000 div_mult2_eq[symmetric])

lemma pad_digits:
  assumes m: "m < 10000"
  shows "padStart 4 (CHR ''0'') (digits m) =
    [digit_char (m div 1000), digit_char (m div 100 mod 10),
     digit_char (m div 10 mod 10), digit_char (m mod 10)]"
proof -
  consider "m < 10" | "10 \<le> m" "m < 100" | "100 \<le> m" "m < 1000" | "1000 \<le> m"
    by linarith
  then show ?thesis
  proof cases
    case 1
    then show ?thesis by (simp add: digits_lt_10 padStart_def digit_char_0 replicate_3)
  next
    case 2
    then show ?thesis by (simp add: digits_lt_100 padStart_def digit_char_0 replicate_2)
  next
    case 3
    then show ?thesis by (simp add: digits_lt_1000 padStart_def digit_char_0)
  next
    case 4
    with m show ?thesis by (simp add: digits_lt_10000 padStart_def)
  qed
qed

lemma pad_toString:
  assumes "0 \<le> n" "n \<le> 9999"
  shows "padStart 4 (CHR ''0'') (toString n) = spec_formatNumber n"
proof -
  from assms have lt: "nat n < 10000" by linarith
  from assms have md: "n mod 10000 = n" by simp
  from assms have "toString n = digits (nat n)" by (simp add: toString_def)
  then show ?thesis
    using pad_digits[OF lt] by (simp add: spec_formatNumber_def md Let_def)
qed

lemma spec_formatNumber_0: "spec_formatNumber 0 = ''0000''"
  by (simp add: spec_formatNumber_def digit_char_def)

lemma getCurrentTicketNumber_value:
  "qid \<noteq> [] \<Longrightarrow> getCurrentTicketNumber qid st = (Inr (st (getQueueKey qid)), st)"
  by (simp add: getCurrentTicketNumber_def adapter_get_def)

lemma getTicket_fails: "getTicket qid st = (Inl (FailedToGetTicket qid), st)"
  by (simp add: getTicket_def getCurrentTicketNumber_def adapter_get_def
      updateTicketNumber_def Let_def)

lemma resetQueue_fails: "resetQueue qid st = (Inl (FailedToResetQueue qid), st)"
  by (simp add: resetQueue_def updateTicketNumber_def)

lemma incrementTicketNumber_stored:
  assumes "qid \<noteq> []" and "st (getQueueKey qid) = Some n" and "0 \<le> n" and "n \<le> 9999"
  shows "incrementTicketNumber qid st =
     (Inr ((n + 1) mod 10000), st(getQueueKey qid \<mapsto> (n + 1) mod 10000))"
proof (cases "n = 9999")
  case True
  with assms show ?thesis
    by (simp add: incrementTicketNumber_def getCurrentTicketNumber_value adapter_set_def
        MAX_TICKET_NUMBER_def Let_def)
next
  case False
  with assms have "(n + 1) mod 10000 = n + 1" by simp
  with assms False show ?thesis
    by (simp add: incrementTicketNumber_def getCurrentTicketNumber_value adapter_set_def
        MAX_TICKET_NUMBER_def Let_def)
qed

lemma getNextNumber_value:
  assumes "0 \<le> n" and "n \<le> 9999"
  shows "getNextNumber n = Inr ((n + 1) mod 10000)"
proof (cases "n = 9999")
  case True
  then show ?thesis by (simp add: getNextNumber_def MAX_TICKET_NUMBER_def MIN_TICKET_NUMBER_def)
next
  case False
  with assms have "(n + 1) mod 10000 = n + 1" by simp
  with assms False show ?thesis
    by (simp add: getNextNumber_def MAX_TICKET_NUMBER_def MIN_TICKET_NUMBER_def)
qed


lemma resetTicketNumber_value:
  "qid \<noteq> [] \<Longrightarrow> resetTicketNumber qid st = (Inr True, st(getQueueKey qid \<mapsto> 0))"
  by (simp add: resetTicketNumber_def adapter_set_def)

lemma counters_in_range_upd:
  "counters_in_range st \<Longrightarrow> 0 \<le> v \<Longrightarrow> v \<le> 9999 \<Longrightarrow> counters_in_range (st(k \<mapsto> v))"
  by (simp add: counters_in_range_def)

lemma getTicket_keeps_range:
  assumes "counters_in_range st"
  shows "counters_in_range (snd (getTicket qid st))"
  using assms by (simp add: getTicket_fails)

lemma incrementTicketNumber_keeps_range:
  assumes "counters_in_range st"
  shows "counters_in_range (snd (incrementTicketNumber qid st))"
proof (cases "qid = []")
  case True
  with assms show ?thesis by (simp add: incrementTicketNumber_def)
next
  case False
  show ?thesis
  proof (cases "st (getQueueKey qid)")
    case None
    with False assms show ?thesis
      by (simp add: incrementTicketNumber_def getCurrentTicketNumber_value)
  next
    case (Some n)
    with assms have "0 \<le> n" "n \<le> 9999" by (auto simp: counters_in_range_def)
    with False Some assms show ?thesis
      by (simp add: incrementTicketNumber_stored counters_in_range_upd)
  qed
qed

lemma resetQueue_keeps_range:
  assumes "counters_in_range st"
  shows "counters_in_range (snd (resetQueue qid st))"
  using assms by (simp add: resetQueue_fails)

lemma resetTicketNumber_keeps_range:
  assumes "counters_in_range st"
  shows "counters_in_range (snd (resetTicketNumber qid st))"
proof (cases "qid = []")
  case True
  with assms show ?thesis by (simp add: resetTicketNumber_def)
next
  case False
  with assms show ?thesis by (simp add: resetTicketNumber_value counters_in_range_upd)
qed

lemma createQueue_keeps_range:
  assumes "counters_in_range st"
  shows "counters_in_range (snd (createQueue qid st))"
  using assms
  by (cases "qid = []"; cases "st (getQueueKey qid)")
     (simp_all add: createQueue_def getCurrentTicketNumber_value adapter_set_def
       counters_in_range_upd)



lemma run_alone:
  "run [0, 0] [Waiting qid] st =
     ([Returned (fst (incrementTicketNumber qid st))], snd (incrementTicketNumber qid st))"
proof (cases "qid = []")
  case True
  then show ?thesis by (simp add: incrementTicketNumber_def)
next
  case False
  then show ?thesis
    by (cases "st (getQueueKey qid)")
       (simp_all add: incrementTicketNumber_def getCurrentTicketNumber_value Let_def
         adapter_set_def)
qed

section \<open>The first ticket of a queue\<close>

text \<open>
  C1: the first issue call for a queue with no stored value returns \<open>0000\<close> and
  persists 0. The code evaluated on the queue \<open>checkout\<close> and the empty store:
  \<open>getTicket\<close> reads \<open>null\<close>, calls the undefined \<open>updateTicketNumber\<close> and fails with
  \<open>Failed to get ticket for queue checkout\<close>; \<open>incrementTicketNumber\<close> fails with
  \<open>Queue checkout does not exist\<close>; neither persists anything.
\<close>

theorem getTicket_first_call_fails:
  "getTicket ''checkout'' Map.empty = (Inl (FailedToGetTicket ''checkout''), Map.empty)
   \<and> incrementTicketNumber ''checkout'' Map.empty
       = (Inl (QueueDoesNotExist ''checkout''), Map.empty)"
  by (simp add: getTicket_fails incrementTicketNumber_def getCurrentTicketNumber_value)

section \<open>Advancing a stored counter\<close>

text \<open>
  C2: for a queue whose stored counter is \<open>n\<close> with \<open>0 \<le> n \<le> 9999\<close>, one issue call
  returns \<open>(n + 1) mod 10000\<close> as four digits and persists that integer; from 9999 it
  returns \<open>0000\<close> and persists 0. The code evaluated on the queue \<open>a\<close> with 9999 stored:
  \<open>getTicket\<close> fails and leaves 9999 stored, where \<open>incrementTicketNumber\<close> and
  \<open>Ticket.getNextNumber\<close> wrap to 0.
\<close>

theorem getTicket_stored_counter_fails:
  "getTicket ''a'' [getQueueKey ''a'' \<mapsto> 9999]
     = (Inl (FailedToGetTicket ''a''), [getQueueKey ''a'' \<mapsto> 9999])
   \<and> incrementTicketNumber ''a'' [getQueueKey ''a'' \<mapsto> 9999]
       = (Inr 0, [getQueueKey ''a'' \<mapsto> 0])
   \<and> getNextNumber 9999 = Inr 0"
  by (simp add: getTicket_fails incrementTicketNumber_stored getNextNumber_value)

section \<open>Interleaved issue calls\<close>

text \<open>
  C3: any N interleaved executions of the issue operation for one queue yield N
  pairwise-distinct numbers, the read-modify-write being atomic per key. The code
  evaluated on two \<open>incrementTicketNumber\<close> calls for the queue \<open>q\<close> whose stored
  counter is 5, scheduled read, read, write, write: both calls read 5, both persist 6
  and both return 6. Two \<open>getTicket\<close> calls return no number at all: each fails.
\<close>

theorem interleaved_incrementTicketNumber_duplicate:
  "run [0, 1, 0, 1] [Waiting ''q'', Waiting ''q''] [getQueueKey ''q'' \<mapsto> 5]
     = ([Returned (Inr 6), Returned (Inr 6)], [getQueueKey ''q'' \<mapsto> 6])
   \<and> fst (getTicket ''q'' [getQueueKey ''q'' \<mapsto> 5]) = Inl (FailedToGetTicket ''q'')"
  by (simp add: getCurrentTicketNumber_value adapter_set_def MAX_TICKET_NUMBER_def
      getTicket_fails)

section \<open>The range of stored counters\<close>

text \<open>
  C4: starting from a store in which every counter lies in the closed range from 0 to
  9999, each engine operation (issue, reset, create), whether it succeeds or fails,
  leaves a store in which every counter lies in that range.
\<close>

theorem operations_keep_counters_in_range:
  assumes "counters_in_range st"
  shows "counters_in_range (snd (getTicket qid st))
    \<and> counters_in_range (snd (incrementTicketNumber qid st))
    \<and> counters_in_range (snd (resetQueue qid st))
    \<and> counters_in_range (snd (resetTicketNumber qid st))
    \<and> counters_in_range (snd (createQueue qid st))"
  using assms
  by (simp add: getTicket_keeps_range incrementTicketNumber_keeps_range resetQueue_keeps_range
      resetTicketNumber_keeps_range createQueue_keeps_range)

theorem operations_keep_counters_in_range_witness:
  "counters_in_range [''queue:a:ticket'' \<mapsto> 9999]
    \<and> counters_in_range (snd (getTicket ''a'' [''queue:a:ticket'' \<mapsto> 9999]))
    \<and> counters_in_range (snd (incrementTicketNumber ''a'' [''queue:a:ticket'' \<mapsto> 9999]))
    \<and> counters_in_range (snd (resetQueue ''a'' [''queue:a:ticket'' \<mapsto> 9999]))
    \<and> counters_in_range (snd (resetTicketNumber ''a'' [''queue:a:ticket'' \<mapsto> 9999]))
    \<and> counters_in_range (snd (createQueue ''a'' [''queue:a:ticket'' \<mapsto> 9999]))"
proof -
  have h: "counters_in_range [''queue:a:ticket'' \<mapsto> 9999]"
    by (simp add: counters_in_range_def)
  show ?thesis
    using h operations_keep_counters_in_range[OF h, of "''a''"] by simp
qed

section \<open>Formatting\<close>

text \<open>
  C5: the formatting function accepts every integer and returns the decimal rendering
  of \<open>n mod 10000\<close> left-padded with zeros to exactly width 4. The code evaluated at
  10000 and at -1: \<open>QueueService.formatTicketNumber\<close> performs no reduction and returns
  the five characters \<open>10000\<close> and the string \<open>00-1\<close>, where the spec's rule gives
  \<open>0000\<close> and \<open>9999\<close>.
\<close>

theorem formatTicketNumber_out_of_range:
  "formatTicketNumber (Some 10000) = Inr ''10000''
    \<and> formatTicketNumber (Some (- 1)) = Inr ''00-1''
    \<and> spec_formatNumber 10000 = ''0000''
    \<and> spec_formatNumber (- 1) = ''9999''"
  by (simp add: formatTicketNumber_def padStart_def toString_def digits.simps digit_char_def
      spec_formatNumber_def replicate_2)

section \<open>Reading the status of a queue\<close>

text \<open>
  C6: the read operation \<open>getQueueStatus\<close>, applied to a queue id with no stored value,
  returns \<open>0000\<close>, not an error, and writes nothing. The code evaluated on the queue
  \<open>other\<close> and the empty store: \<open>formatTicketNumber(null)\<close> raises, the call fails with
  \<open>Failed to get status for queue other\<close>, and the store stays empty.
\<close>

theorem getQueueStatus_absent:
  "getQueueStatus ''other'' Map.empty = (Inl (FailedToGetStatus ''other''), Map.empty)"
  by (simp add: getQueueStatus_def getCurrentTicketNumber_value formatTicketNumber_def)

section \<open>Reset followed by issue\<close>

text \<open>
  C7: after \<open>resetQueue(q)\<close>, whatever was stored before, one issue call for \<open>q\<close>
  returns \<open>0000\<close>. The code evaluated on the queue \<open>checkout\<close> with 41 stored:
  \<open>QueueService.resetQueue\<close> calls the undefined \<open>updateTicketNumber\<close>, fails and leaves
  41 stored; \<open>QueueRepository.resetTicketNumber\<close> persists 0, after which \<open>getTicket\<close>
  fails with 0 still stored and \<open>incrementTicketNumber\<close> returns 1.
\<close>

theorem reset_then_issue_fails:
  "resetQueue ''checkout'' [getQueueKey ''checkout'' \<mapsto> 41]
     = (Inl (FailedToResetQueue ''checkout''), [getQueueKey ''checkout'' \<mapsto> 41])
   \<and> resetTicketNumber ''checkout'' [getQueueKey ''checkout'' \<mapsto> 41]
       = (Inr True, [getQueueKey ''checkout'' \<mapsto> 0])
   \<and> getTicket ''checkout'' (snd (resetTicketNumber ''checkout'' [getQueueKey ''checkout'' \<mapsto> 41]))
       = (Inl (FailedToGetTicket ''checkout''), [getQueueKey ''checkout'' \<mapsto> 0])
   \<and> incrementTicketNumber ''checkout''
         (snd (resetTicketNumber ''checkout'' [getQueueKey ''checkout'' \<mapsto> 41]))
       = (Inr 1, [getQueueKey ''checkout'' \<mapsto> 1])"
  by (simp add: resetQueue_fails resetTicketNumber_value getTicket_fails
      incrementTicketNumber_stored)

section \<open>Independence of queues\<close>



section \<open>Ticket.createNext\<close>

text \<open>
  C9: for every integer \<open>n\<close> with \<open>0 \<le> n \<le> 9999\<close> and every non-empty queue id,
  \<open>Ticket.getNextNumber\<close> returns a value between 0 and 9999, so \<open>Ticket.createNext\<close>
  builds a ticket and never reaches the constructor's out-of-range rejection.
\<close>

theorem createNext_never_out_of_range:
  assumes "0 \<le> n" and "n \<le> 9999" and "qid \<noteq> []"
  shows "getNextNumber n = Inr ((n + 1) mod 10000)
    \<and> 0 \<le> (n + 1) mod 10000 \<and> (n + 1) mod 10000 \<le> 9999
    \<and> createNext qid n now =
        Inr \<lparr>queueId = qid, number = (n + 1) mod 10000,
             formattedNumber = spec_formatNumber ((n + 1) mod 10000), createdAt = now\<rparr>
    \<and> createNext qid n now \<noteq> Inl TicketNumberOutOfRange"
proof -
  let ?m = "(n + 1) mod 10000"
  have r: "0 \<le> ?m" "?m \<le> 9999" by simp_all
  have g: "getNextNumber n = Inr ?m"
    using assms(1,2) by (rule getNextNumber_value)
  have f: "formatNumber ?m = Inr (spec_formatNumber ?m)"
    using r by (simp add: formatNumber_def MAX_TICKET_NUMBER_def MIN_TICKET_NUMBER_def pad_toString)
  have c: "createNext qid n now =
        Inr \<lparr>queueId = qid, number = ?m, formattedNumber = spec_formatNumber ?m, createdAt = now\<rparr>"
    using assms(3) r
    by (simp add: createNext_def g new_Ticket_def f MAX_TICKET_NUMBER_def MIN_TICKET_NUMBER_def)
  from g r c show ?thesis by simp
qed

theorem createNext_never_out_of_range_witness:
  "getNextNumber 9999 = Inr 0
    \<and> createNext ''a'' 9999 5 =
        Inr \<lparr>queueId = ''a'', number = 0, formattedNumber = ''0000'', createdAt = 5\<rparr>
    \<and> createNext ''a'' 9999 5 \<noteq> Inl TicketNumberOutOfRange"
  using createNext_never_out_of_range[of 9999 "''a''" 5]
  by (simp add: spec_formatNumber_0)

section \<open>The increment of the Redis adapter\<close>

text \<open>
  C10: \<open>RedisStorageAdapter.increment\<close>, on a reachable server, returns and persists the
  stored integer plus 1 for every stored value \<open>v \<ge> 0\<close> with no reduction modulo 10000;
  from 9999 on the result exceeds the largest ticket number.
\<close>

theorem increment_without_modulo:
  assumes "reachable r" and "rdata r key = Some v" and "0 \<le> v"
  shows "increment key r = (Inr (v + 1), r\<lparr>rdata := (rdata r)(key \<mapsto> v + 1)\<rparr>)
    \<and> (9999 \<le> v \<longrightarrow> MAX_TICKET_NUMBER < v + 1)"
  using assms by (simp add: increment_def client_incr_def Let_def MAX_TICKET_NUMBER_def)

theorem increment_without_modulo_witness:
  "increment ''queue:a:ticket'' \<lparr>reachable = True, rdata = [''queue:a:ticket'' \<mapsto> 9999]\<rparr>
     = (Inr 10000, \<lparr>reachable = True, rdata = [''queue:a:ticket'' \<mapsto> 10000]\<rparr>)
   \<and> MAX_TICKET_NUMBER < 10000"
  using increment_without_modulo[of "\<lparr>reachable = True, rdata = [''queue:a:ticket'' \<mapsto> 9999]\<rparr>"
      "''queue:a:ticket''" 9999]
  by simp

end
